theory Spec2Isabelle
  imports Main "HOL-Library.Sublist"
begin

section \<open>Data model of the tool-calling loop (src/llm/base.py)\<close>

text \<open>
  A conversation message is the Python dict with the keys \<open>role\<close> and \<open>content\<close>.
\<close>

record message =
  role :: string
  content :: string

text \<open>
  One entry of \<open>response['tool_calls']\<close>: the keys \<open>name\<close> and \<open>arguments\<close>. The type
  of the argument mapping is left open here; the Gemini adapter fixes it below.
\<close>

record 'a tool_call =
  tc_name :: string
  tc_arguments :: 'a

text \<open>
  The dict returned by \<open>chat\<close>. \<open>chat_with_tools\<close> reads it only through
  \<open>response.get('content', '')\<close> and \<open>response.get('tool_calls')\<close>, so each key may be
  absent: \<open>None\<close> stands for an absent key (for \<open>tool_calls\<close> also for the value
  \<open>None\<close>).
\<close>

record 'a llm_response =
  r_content :: "string option"
  r_tool_calls :: "'a tool_call list option"

text \<open>One entry of \<open>tool_calls_made\<close>: the keys \<open>name\<close>, \<open>arguments\<close>, \<open>result\<close>.\<close>

record ('a, 'r) tool_record =
  name :: string
  arguments :: 'a
  result :: 'r

text \<open>
  The dict returned by \<open>chat_with_tools\<close>. The key \<open>error\<close> is present only on the
  path after the loop; \<open>None\<close> stands for its absence.
\<close>

record ('a, 'r) chat_result =
  response :: string
  tool_calls_made :: "('a, 'r) tool_record list"
  iterations :: int
  error :: "string option"

section \<open>The orchestrator: \<open>BaseLLM.chat_with_tools\<close>\<close>

text \<open>
  The three abstract methods of \<open>BaseLLM\<close> are parameters of the model. \<open>chat\<close> and
  \<open>execute_tool_call\<close> talk to the outside (the model provider, the database), so
  they take the state \<open>'w\<close> of the outside world and return it updated;
  \<open>format_tool_response\<close> is a function of its arguments. They are modelled as
  returning a value: the concrete adapter catches every \<open>Exception\<close> in both
  \<open>chat\<close> and \<open>execute_tool_call\<close> (see the Gemini section), and its
  \<open>format_tool_response\<close> only renders values that came out of \<open>json\<close> decoding
  or are an error dict. A tool request is a dict with both keys, \<open>name\<close> and
  \<open>arguments\<close>, as the adapter builds it.
\<close>

type_synonym ('w, 't, 'a) chat_fn = "'w \<Rightarrow> message list \<Rightarrow> 't \<Rightarrow> 'a llm_response \<times> 'w"
type_synonym ('w, 'a, 'r) exec_fn = "'w \<Rightarrow> string \<Rightarrow> 'a \<Rightarrow> 'r \<times> 'w"
type_synonym 'r format_fn = "string \<Rightarrow> 'r \<Rightarrow> string"

text \<open>
  \<open>response.get('tool_calls')\<close> as a list: an absent key, \<open>None\<close> and \<open>[]\<close> are all
  falsy, so \<open>not response.get('tool_calls')\<close> is \<open>tool_requests response = []\<close>.
\<close>

definition tool_requests :: "'a llm_response \<Rightarrow> 'a tool_call list" where
  "tool_requests resp = (case r_tool_calls resp of None \<Rightarrow> [] | Some tcs \<Rightarrow> tcs)"

text \<open>\<open>response.get('content', '')\<close>.\<close>

definition content_or_empty :: "'a llm_response \<Rightarrow> string" where
  "content_or_empty resp = (case r_content resp of None \<Rightarrow> [] | Some c \<Rightarrow> c)"

text \<open>The text returned when the loop runs out of iterations (base.py, line 156).\<close>

definition fallback_response :: string where
  "fallback_response =
     ''I apologize, but I'' @ [CHR 0x27] @
     ''m having trouble processing your request. Please try rephrasing.''"

text \<open>
  The \<open>for tool_call in response['tool_calls']\<close> loop (base.py, lines 127-152). Its
  state is the message list, \<open>tool_calls_made\<close> and the outside world; each request
  is executed, recorded, formatted, and two synthetic turns are appended.
\<close>

fun run_tool_calls ::
  "('w, 'a, 'r) exec_fn \<Rightarrow> 'r format_fn \<Rightarrow> 'a tool_call list \<Rightarrow>
   message list \<times> ('a, 'r) tool_record list \<times> 'w \<Rightarrow>
   message list \<times> ('a, 'r) tool_record list \<times> 'w" where
  "run_tool_calls execute_tool_call format_tool_response [] st = st"
| "run_tool_calls execute_tool_call format_tool_response (tool_call # rest) (messages, made, w) =
     (let tool_name = tc_name tool_call;
          tool_args = tc_arguments tool_call;
          (tool_result, w') = execute_tool_call w tool_name tool_args;
          made' = made @ [\<lparr>name = tool_name, arguments = tool_args, result = tool_result\<rparr>];
          formatted_result = format_tool_response tool_name tool_result;
          messages' = messages @
            [\<lparr>role = ''assistant'', content = ''[Tool call: '' @ tool_name @ '']''\<rparr>,
             \<lparr>role = ''user'', content = formatted_result\<rparr>]
      in run_tool_calls execute_tool_call format_tool_response rest (messages', made', w'))"

text \<open>
  The \<open>while iterations < max_iterations\<close> loop together with the return after it
  (base.py, lines 111-160). The local variables \<open>iterations\<close> and
  \<open>tool_calls_made\<close> are \<open>iters\<close> and \<open>made\<close> here (the names are taken by the
  keys of the returned dict). Besides the returned dict the model gives back the
  message list as the loop left it and the outside world.
\<close>

function chat_loop ::
  "('w, 't, 'a) chat_fn \<Rightarrow> ('w, 'a, 'r) exec_fn \<Rightarrow> 'r format_fn \<Rightarrow> 't \<Rightarrow> int \<Rightarrow>
   int \<Rightarrow> message list \<Rightarrow> ('a, 'r) tool_record list \<Rightarrow> 'w \<Rightarrow>
   ('a, 'r) chat_result \<times> message list \<times> 'w" where
  "chat_loop chat execute_tool_call format_tool_response tools max_iterations
     iters messages made w =
     (if iters < max_iterations then
        (case chat w messages tools of
           (resp, w1) \<Rightarrow>
             if tool_requests resp = [] then
               (\<lparr>response = content_or_empty resp, tool_calls_made = made,
                 iterations = iters + 1, error = None\<rparr>, messages, w1)
             else
               (case run_tool_calls execute_tool_call format_tool_response
                       (tool_requests resp) (messages, made, w1) of
                  (messages', made', w2) \<Rightarrow>
                    chat_loop chat execute_tool_call format_tool_response tools max_iterations
                      (iters + 1) messages' made' w2))
      else
        (\<lparr>response = fallback_response, tool_calls_made = made,
          iterations = iters, error = Some ''max_iterations_reached''\<rparr>, messages, w))"
  by pat_completeness auto
termination
  by (relation "measure (\<lambda>(chat, ex, fmt, tools, max_iterations, iters, rest).
                    nat (max_iterations - iters))") auto

text \<open>
  \<open>chat_with_tools\<close> itself. \<open>messages = conversation_history or []\<close> binds
  \<open>messages\<close> to the caller's own list object when that list is non-empty, and to a
  fresh list when the argument is \<open>None\<close> or empty; every later \<open>append\<close> goes to
  that object. The second component of the result is the caller's list as it is
  after the call (\<open>None\<close> when no list was passed).
\<close>

definition chat_with_tools ::
  "('w, 't, 'a) chat_fn \<Rightarrow> ('w, 'a, 'r) exec_fn \<Rightarrow> 'r format_fn \<Rightarrow>
   string \<Rightarrow> message list option \<Rightarrow> 't \<Rightarrow> int \<Rightarrow> 'w \<Rightarrow>
   ('a, 'r) chat_result \<times> message list option \<times> 'w" where
  "chat_with_tools chat execute_tool_call format_tool_response
     user_message conversation_history tools max_iterations w =
     (let messages = (case conversation_history of None \<Rightarrow> [] | Some h \<Rightarrow> h) @
                     [\<lparr>role = ''user'', content = user_message\<rparr>]
      in case chat_loop chat execute_tool_call format_tool_response tools max_iterations
                0 messages [] w of
           (res, final_messages, w') \<Rightarrow>
             (res,
              (case conversation_history of
                 None \<Rightarrow> None
               | Some h \<Rightarrow> if h = [] then Some [] else Some final_messages),
              w'))"

section \<open>Python values\<close>

text \<open>
  The values that cross the tool boundary: what \<open>json\<close> decoding of a backend
  answer yields and what the provider puts into a function call's arguments. A dict
  is an association list whose keys are distinct, in insertion order. Floats are
  left out: no branch of the code modelled here looks at one.
\<close>

datatype pyval =
  PyNone
| PyBool bool
| PyInt int
| PyStr string
| PyList "pyval list"
| PyDict "(string \<times> pyval) list"

type_synonym py_args = "(string \<times> pyval) list"

text \<open>\<open>bool(v)\<close>, as used by \<open>if response.data\<close>.\<close>

fun py_truthy :: "pyval \<Rightarrow> bool" where
  "py_truthy PyNone = False"
| "py_truthy (PyBool b) = b"
| "py_truthy (PyInt n) = (n \<noteq> 0)"
| "py_truthy (PyStr s) = (s \<noteq> [])"
| "py_truthy (PyList xs) = (xs \<noteq> [])"
| "py_truthy (PyDict kvs) = (kvs \<noteq> [])"

text \<open>
  \<open>v[0]\<close>; \<open>None\<close> stands for the exception Python raises (\<open>IndexError\<close> on an
  empty sequence, \<open>KeyError\<close> on a dict, whose keys are strings, \<open>TypeError\<close> on a
  value that cannot be subscripted).
\<close>

fun py_getitem0 :: "pyval \<Rightarrow> pyval option" where
  "py_getitem0 (PyList (x # xs)) = Some x"
| "py_getitem0 (PyStr (c # cs)) = Some (PyStr [c])"
| "py_getitem0 v = None"

text \<open>
  \<open>v[key]\<close> for a string key: defined on a dict that has the key; \<open>None\<close> stands for
  \<open>KeyError\<close>, and for the \<open>TypeError\<close> of every other kind of value.
\<close>

fun py_getitem_str :: "pyval \<Rightarrow> string \<Rightarrow> pyval option" where
  "py_getitem_str (PyDict kvs) key = map_of kvs key"
| "py_getitem_str v key = None"

text \<open>
  The elements \<open>for x in v\<close> runs through; \<open>None\<close> stands for the \<open>TypeError\<close> of a
  value that is not iterable. A dict is iterated by its keys, a string by its
  characters.
\<close>

fun py_iter :: "pyval \<Rightarrow> pyval list option" where
  "py_iter (PyList xs) = Some xs"
| "py_iter (PyStr s) = Some (map (\<lambda>c. PyStr [c]) s)"
| "py_iter (PyDict kvs) = Some (map (\<lambda>kv. PyStr (fst kv)) kvs)"
| "py_iter v = None"

section \<open>The Gemini adapter (src/llm/gemini.py)\<close>

subsection \<open>\<open>GeminiLLM.chat\<close>\<close>

text \<open>
  What the provider's answer is read through: \<open>response.candidates\<close>, each with
  \<open>candidate.content.parts\<close>, each part with \<open>part.function_call\<close> (\<open>None\<close> here when
  the attribute is missing or falsy) and \<open>part.text\<close> (the empty string when missing
  or falsy).
\<close>

record fcall =
  fc_name :: string
  fc_args :: py_args

record part =
  p_function_call :: "fcall option"
  p_text :: string

record candidate =
  parts :: "part list"

text \<open>A tool definition as in \<open>tools.py\<close>: the keys \<open>name\<close>, \<open>description\<close>, \<open>parameters\<close>.\<close>

record tool_def =
  td_name :: string
  td_description :: string
  td_parameters :: pyval

text \<open>
  \<open>_convert_tools_to_gemini_format\<close>: one \<open>FunctionDeclaration\<close> per tool definition,
  all of them in a single \<open>Tool\<close>, returned as a one-element list.
\<close>

datatype function_declaration = FunctionDeclaration string string pyval

datatype gemini_tool = Tool "function_declaration list"

definition convert_tools_to_gemini_format :: "tool_def list \<Rightarrow> gemini_tool list" where
  "convert_tools_to_gemini_format tools =
     [Tool (map (\<lambda>tool. FunctionDeclaration (td_name tool) (td_description tool)
                             (td_parameters tool)) tools)]"

text \<open>
  The provider call: \<open>genai.GenerativeModel(model_name, tools).generate_content(prompt)\<close>
  on the outside world. \<open>Inl e\<close> is an exception whose \<open>str\<close> is \<open>e\<close>; \<open>Inr\<close> carries
  the candidates of the answer.
\<close>

type_synonym 'w provider_fn =
  "'w \<Rightarrow> gemini_tool list option \<Rightarrow> string \<Rightarrow> (string + candidate list) \<times> 'w"

text \<open>\<open>sep.join(xs)\<close>.\<close>

fun str_join :: "string \<Rightarrow> string list \<Rightarrow> string" where
  "str_join sep [] = []"
| "str_join sep [x] = x"
| "str_join sep (x # y # ys) = x @ sep @ str_join sep (y # ys)"

text \<open>The contribution of one message to \<open>prompt_parts\<close>; other roles add nothing.\<close>

definition prompt_part :: "message \<Rightarrow> string option" where
  "prompt_part msg =
     (if role msg = ''system'' then Some (''System: '' @ content msg @ [CHR 0x0A])
      else if role msg = ''user'' then Some (''User: '' @ content msg @ [CHR 0x0A])
      else if role msg = ''assistant'' then Some (''Assistant: '' @ content msg @ [CHR 0x0A])
      else None)"

definition full_prompt :: "message list \<Rightarrow> string" where
  "full_prompt messages = str_join [CHR 0x0A] (List.map_filter prompt_part messages)"

text \<open>
  \<open>gemini_tools\<close>: converted when \<open>tools\<close> is given and non-empty, \<open>None\<close> otherwise; the
  converted list is never empty, so \<open>if gemini_tools\<close> chooses the same way.
\<close>

definition gemini_tools_of :: "tool_def list option \<Rightarrow> gemini_tool list option" where
  "gemini_tools_of tools =
     (case tools of
        None \<Rightarrow> None
      | Some ts \<Rightarrow> if ts = [] then None else Some (convert_tools_to_gemini_format ts))"

text \<open>The body of the loop over the parts (gemini.py, lines 90-100).\<close>

definition parse_part ::
  "string \<times> py_args tool_call list \<Rightarrow> part \<Rightarrow> string \<times> py_args tool_call list" where
  "parse_part acc p =
     (case acc of (text_so_far, calls) \<Rightarrow>
        (if p_text p \<noteq> [] then text_so_far @ p_text p else text_so_far,
         case p_function_call p of
           None \<Rightarrow> calls
         | Some fc \<Rightarrow> calls @ [\<lparr>tc_name = fc_name fc, tc_arguments = fc_args fc\<rparr>]))"

text \<open>
  Lines 83-106: the two nested loops, then the placeholder for an answer that has
  tool calls and no text.
\<close>

definition parse_response :: "candidate list \<Rightarrow> py_args llm_response" where
  "parse_response candidates =
     (case foldl (\<lambda>acc cand. foldl parse_part acc (parts cand)) ([], []) candidates of
        (text_found, calls) \<Rightarrow>
          \<lparr>r_content = Some (if calls \<noteq> [] \<and> text_found = [] then ''[Calling tools...]''
                              else text_found),
            r_tool_calls = Some calls\<rparr>)"

text \<open>
  \<open>GeminiLLM.chat\<close>. The whole body is inside \<open>try\<close>, so an exception of the
  provider call becomes the error answer of lines 112-115 (the two \<open>print\<close> calls
  only write to standard output and are left out).
\<close>

definition GeminiLLM_chat ::
  "'w provider_fn \<Rightarrow> ('w, tool_def list option, py_args) chat_fn" where
  "GeminiLLM_chat provider w messages tools =
     (case provider w (gemini_tools_of tools) (full_prompt messages) of
        (Inl e, w') \<Rightarrow> (\<lparr>r_content = Some (''Error: '' @ e), r_tool_calls = Some []\<rparr>, w')
      | (Inr candidates, w') \<Rightarrow> (parse_response candidates, w'))"

subsection \<open>\<open>GeminiLLM.execute_tool_call\<close> and \<open>format_tool_response\<close>\<close>

text \<open>
  A registered function called as \<open>func(**tool_args)\<close>: \<open>Inl e\<close> is an exception
  whose \<open>str\<close> is \<open>e\<close> (also the \<open>TypeError\<close> of an argument name the function does
  not have), \<open>Inr\<close> the value returned.
\<close>

type_synonym 'w tool_fn = "'w \<Rightarrow> py_args \<Rightarrow> (string + pyval) \<times> 'w"

text \<open>The keys of \<open>self.tool_map\<close>, as \<open>__init__\<close> sets them (gemini.py, lines 29-37).\<close>

definition tool_names :: "string list" where
  "tool_names =
     [''get_top_selling_products'', ''get_trending_products'',
      ''search_products_by_description'', ''get_low_stock_products'',
      ''get_sales_summary_by_category'', ''get_product_details'',
      ''get_recent_transactions'']"

text \<open>
  \<open>self.tool_map\<close>: every key is bound to the function of the same name in
  \<open>database.queries\<close>; \<open>queries n\<close> is that function called with keyword arguments.
\<close>

definition tool_map :: "(string \<Rightarrow> 'w tool_fn) \<Rightarrow> string \<rightharpoonup> 'w tool_fn" where
  "tool_map queries = map_of (map (\<lambda>n. (n, queries n)) tool_names)"

definition GeminiLLM_execute_tool_call ::
  "(string \<rightharpoonup> 'w tool_fn) \<Rightarrow> ('w, py_args, pyval) exec_fn" where
  "GeminiLLM_execute_tool_call registry w tool_name tool_args =
     (case registry tool_name of
        None \<Rightarrow> (PyDict [(''error'', PyStr (''Unknown tool: '' @ tool_name))], w)
      | Some func \<Rightarrow>
          (case func w tool_args of
             (Inl e, w') \<Rightarrow> (PyDict [(''error'', PyStr e)], w')
           | (Inr res, w') \<Rightarrow> (res, w')))"

text \<open>
  \<open>format_tool_response\<close>; \<open>json.dumps(v, indent=2)\<close> and \<open>str(v)\<close> are parameters.
\<close>

definition GeminiLLM_format_tool_response ::
  "(pyval \<Rightarrow> string) \<Rightarrow> (pyval \<Rightarrow> string) \<Rightarrow> pyval format_fn" where
  "GeminiLLM_format_tool_response json_dumps py_str tool_name tool_result =
     (case tool_result of
        PyDict kvs \<Rightarrow>
          (case map_of kvs ''error'' of
             Some e \<Rightarrow> ''Error executing '' @ tool_name @ '': '' @ py_str e
           | None \<Rightarrow> json_dumps tool_result)
      | PyList xs \<Rightarrow> json_dumps tool_result
      | _ \<Rightarrow> py_str tool_result)"

section \<open>The data access functions (src/database/queries.py)\<close>

text \<open>
  A request to the Supabase backend: \<open>supabase.rpc(name, params)\<close>, or
  \<open>supabase.table(t).select(columns)\<close> followed by \<open>.eq(column, value)\<close> filters.
  \<open>execute()\<close> on the outside world either raises (\<open>Inl\<close>) or returns a response
  whose \<open>data\<close> is the \<open>Inr\<close> value. \<open>int(v)\<close> is a parameter of the functions that
  convert an argument; it too may raise. The functions only print the exception
  they catch, so nothing of it appears in the result.
\<close>

datatype request =
  Rpc string "(string \<times> pyval) list"
| Select string string "(string \<times> pyval) list"

type_synonym ('w, 'e) backend = "'w \<Rightarrow> request \<Rightarrow> ('e + pyval) \<times> 'w"

definition get_top_selling_products ::
  "(pyval \<Rightarrow> 'e + int) \<Rightarrow> ('w, 'e) backend \<Rightarrow> 'w \<Rightarrow> pyval \<Rightarrow> pyval \<Rightarrow> pyval \<Rightarrow> pyval \<times> 'w" where
  "get_top_selling_products py_int execute w category limit days =
     (case py_int limit of
        Inl e \<Rightarrow> (PyList [], w)
      | Inr l \<Rightarrow>
          (case py_int days of
             Inl e \<Rightarrow> (PyList [], w)
           | Inr d \<Rightarrow>
               (case execute w (Rpc ''get_top_selling_products''
                        [(''p_category'', category), (''p_limit'', PyInt l), (''p_days'', PyInt d)]) of
                  (Inl e, w') \<Rightarrow> (PyList [], w')
                | (Inr data, w') \<Rightarrow> (data, w'))))"

definition get_trending_products ::
  "(pyval \<Rightarrow> 'e + int) \<Rightarrow> ('w, 'e) backend \<Rightarrow> 'w \<Rightarrow> pyval \<Rightarrow> pyval \<Rightarrow> pyval \<times> 'w" where
  "get_trending_products py_int execute w days limit =
     (case py_int days of
        Inl e \<Rightarrow> (PyList [], w)
      | Inr d \<Rightarrow>
          (case py_int limit of
             Inl e \<Rightarrow> (PyList [], w)
           | Inr l \<Rightarrow>
               (case execute w (Rpc ''get_trending_products''
                        [(''p_days'', PyInt d), (''p_limit'', PyInt l)]) of
                  (Inl e, w') \<Rightarrow> (PyList [], w')
                | (Inr data, w') \<Rightarrow> (data, w'))))"

definition search_products_by_description ::
  "('w, 'e) backend \<Rightarrow> 'w \<Rightarrow> pyval \<Rightarrow> pyval \<times> 'w" where
  "search_products_by_description execute w search_term =
     (case execute w (Rpc ''search_products_by_description''
              [(''p_search_term'', search_term)]) of
        (Inl e, w') \<Rightarrow> (PyList [], w')
      | (Inr data, w') \<Rightarrow> (data, w'))"

definition get_low_stock_products ::
  "(pyval \<Rightarrow> 'e + int) \<Rightarrow> ('w, 'e) backend \<Rightarrow> 'w \<Rightarrow> pyval \<Rightarrow> pyval \<times> 'w" where
  "get_low_stock_products py_int execute w limit =
     (case py_int limit of
        Inl e \<Rightarrow> (PyList [], w)
      | Inr l \<Rightarrow>
          (case execute w (Rpc ''get_low_stock_products'' [(''p_limit'', PyInt l)]) of
             (Inl e, w') \<Rightarrow> (PyList [], w')
           | (Inr data, w') \<Rightarrow> (data, w')))"

definition get_sales_summary_by_category ::
  "(pyval \<Rightarrow> 'e + int) \<Rightarrow> ('w, 'e) backend \<Rightarrow> 'w \<Rightarrow> pyval \<Rightarrow> pyval \<times> 'w" where
  "get_sales_summary_by_category py_int execute w days =
     (case py_int days of
        Inl e \<Rightarrow> (PyList [], w)
      | Inr d \<Rightarrow>
          (case execute w (Rpc ''get_sales_summary_by_category'' [(''p_days'', PyInt d)]) of
             (Inl e, w') \<Rightarrow> (PyList [], w')
           | (Inr data, w') \<Rightarrow> (data, w')))"

text \<open>
  \<open>response.data[0] if response.data else None\<close> is inside the \<open>try\<close> as well, so a
  \<open>data\<close> that is truthy and has no element \<open>0\<close> also ends in \<open>None\<close>.
\<close>

definition get_product_details ::
  "('w, 'e) backend \<Rightarrow> 'w \<Rightarrow> pyval \<Rightarrow> pyval \<Rightarrow> pyval \<times> 'w" where
  "get_product_details execute w product_id product_name =
     (case execute w (Rpc ''get_product_details''
              [(''p_product_id'', product_id), (''p_product_name'', product_name)]) of
        (Inl e, w') \<Rightarrow> (PyNone, w')
      | (Inr data, w') \<Rightarrow>
          (if py_truthy data then
             (case py_getitem0 data of None \<Rightarrow> PyNone | Some first \<Rightarrow> first)
           else PyNone, w'))"

definition get_recent_transactions ::
  "(pyval \<Rightarrow> 'e + int) \<Rightarrow> ('w, 'e) backend \<Rightarrow> 'w \<Rightarrow> pyval \<Rightarrow> pyval \<times> 'w" where
  "get_recent_transactions py_int execute w limit =
     (case py_int limit of
        Inl e \<Rightarrow> (PyList [], w)
      | Inr l \<Rightarrow>
          (case execute w (Rpc ''get_recent_transactions'' [(''p_limit'', PyInt l)]) of
             (Inl e, w') \<Rightarrow> (PyList [], w')
           | (Inr data, w') \<Rightarrow> (data, w')))"

text \<open>
  \<open>[cat['name'] for cat in response.data]\<close> is inside the \<open>try\<close>: a \<open>data\<close> that
  cannot be iterated, or an element without the key, ends in \<open>[]\<close>.
\<close>

definition get_all_categories :: "('w, 'e) backend \<Rightarrow> 'w \<Rightarrow> pyval \<times> 'w" where
  "get_all_categories execute w =
     (case execute w (Select ''categories'' ''name'' []) of
        (Inl e, w') \<Rightarrow> (PyList [], w')
      | (Inr data, w') \<Rightarrow>
          (case py_iter data of
             None \<Rightarrow> (PyList [], w')
           | Some cats \<Rightarrow>
               (case those (map (\<lambda>cat. py_getitem_str cat ''name'') cats) of
                  None \<Rightarrow> (PyList [], w')
                | Some names \<Rightarrow> (PyList names, w'))))"

definition get_category_products :: "('w, 'e) backend \<Rightarrow> 'w \<Rightarrow> pyval \<Rightarrow> pyval \<times> 'w" where
  "get_category_products execute w category =
     (case execute w (Select ''products''
              ''id, name, brand, retail_price, categories!inner(name)''
              [(''status'', PyStr ''active''), (''categories.name'', category)]) of
        (Inl e, w') \<Rightarrow> (PyList [], w')
      | (Inr data, w') \<Rightarrow> (data, w'))"

section \<open>Observing a run\<close>

text \<open>
  To speak about the calls a run makes, the adapter and the tool executor are
  wrapped so that each call is written to a log kept beside the outside world. The
  wrapped functions answer exactly as the unwrapped ones (lemma \<open>traced_run\<close>).
\<close>

datatype ('a, 'r) event =
  ChatCall "message list" "'a llm_response"
| ToolCall string 'a 'r

definition logged_chat ::
  "('w, 't, 'a) chat_fn \<Rightarrow> ('w \<times> ('a, 'r) event list, 't, 'a) chat_fn" where
  "logged_chat chat = (\<lambda>(w, log) messages tools.
     case chat w messages tools of
       (resp, w') \<Rightarrow> (resp, (w', log @ [ChatCall messages resp])))"

definition logged_exec ::
  "('w, 'a, 'r) exec_fn \<Rightarrow> ('w \<times> ('a, 'r) event list, 'a, 'r) exec_fn" where
  "logged_exec execute_tool_call = (\<lambda>(w, log) tool_name tool_args.
     case execute_tool_call w tool_name tool_args of
       (tool_result, w') \<Rightarrow>
         (tool_result, (w', log @ [ToolCall tool_name tool_args tool_result])))"

text \<open>What a traced run gives: the three components of \<open>chat_with_tools\<close> and the log.\<close>

record ('a, 'r, 'w) run =
  returned :: "('a, 'r) chat_result"
  caller_history :: "message list option"
  world :: 'w
  trace :: "('a, 'r) event list"

definition traced_chat_with_tools ::
  "('w, 't, 'a) chat_fn \<Rightarrow> ('w, 'a, 'r) exec_fn \<Rightarrow> 'r format_fn \<Rightarrow>
   string \<Rightarrow> message list option \<Rightarrow> 't \<Rightarrow> int \<Rightarrow> 'w \<Rightarrow> ('a, 'r, 'w) run" where
  "traced_chat_with_tools chat execute_tool_call format_tool_response
     user_message conversation_history tools max_iterations w =
     (case chat_with_tools (logged_chat chat) (logged_exec execute_tool_call)
             format_tool_response user_message conversation_history tools max_iterations
             (w, []) of
        (res, hist, (w', log)) \<Rightarrow>
          \<lparr>returned = res, caller_history = hist, world = w', trace = log\<rparr>)"

text \<open>The answers of the adapter in a log, in call order.\<close>

fun chat_responses :: "('a, 'r) event list \<Rightarrow> 'a llm_response list" where
  "chat_responses [] = []"
| "chat_responses (ChatCall ms resp # es) = resp # chat_responses es"
| "chat_responses (ToolCall n a r # es) = chat_responses es"

text \<open>The tool executions in a log, in call order, each as a record of \<open>tool_calls_made\<close>.\<close>

fun exec_records :: "('a, 'r) event list \<Rightarrow> ('a, 'r) tool_record list" where
  "exec_records [] = []"
| "exec_records (ChatCall ms resp # es) = exec_records es"
| "exec_records (ToolCall n a r # es) =
     \<lparr>name = n, arguments = a, result = r\<rparr> # exec_records es"

text \<open>The request a record answers: its name and arguments.\<close>

definition request_of :: "('a, 'r) tool_record \<Rightarrow> 'a tool_call" where
  "request_of rec = \<lparr>tc_name = name rec, tc_arguments = arguments rec\<rparr>"

text \<open>The two synthetic turns per executed tool request (base.py, lines 145-152).\<close>

definition synthetic_turns :: "'r format_fn \<Rightarrow> ('a, 'r) tool_record list \<Rightarrow> message list" where
  "synthetic_turns format_tool_response recs =
     concat (map (\<lambda>rec.
       [\<lparr>role = ''assistant'', content = ''[Tool call: '' @ name rec @ '']''\<rparr>,
        \<lparr>role = ''user'', content = format_tool_response (name rec) (result rec)\<rparr>]) recs)"

definition is_tool_call :: "('a, 'r) event \<Rightarrow> bool" where
  "is_tool_call e = (case e of ToolCall n a r \<Rightarrow> True | ChatCall ms resp \<Rightarrow> False)"

text \<open>The events of a log after its last adapter call.\<close>

definition last_turn :: "('a, 'r) event list \<Rightarrow> ('a, 'r) event list" where
  "last_turn es = rev (takeWhile is_tool_call (rev es))"

text \<open>
  The facts about a stretch of the loop that the theorems below are read off from:
  the loop starts with \<open>iterations = i\<close>, the messages \<open>msgs\<close> and the records
  \<open>made\<close>, returns \<open>res\<close>, leaves the messages \<open>msgs'\<close>, and \<open>ev\<close> is what it added to
  the log.
\<close>

definition run_facts ::
  "'r format_fn \<Rightarrow> int \<Rightarrow> int \<Rightarrow> message list \<Rightarrow> ('a, 'r) tool_record list \<Rightarrow>
   ('a, 'r) chat_result \<Rightarrow> message list \<Rightarrow> ('a, 'r) event list \<Rightarrow> bool" where
  "run_facts fmt mx i msgs made res msgs' ev \<longleftrightarrow>
     tool_calls_made res = made @ exec_records ev \<and>
     map request_of (exec_records ev) = concat (map tool_requests (chat_responses ev)) \<and>
     msgs' = msgs @ synthetic_turns fmt (exec_records ev) \<and>
     iterations res = i + int (length (chat_responses ev)) \<and>
     iterations res \<le> max i mx \<and>
     (chat_responses ev = [] \<longrightarrow> ev = []) \<and>
     (chat_responses ev \<noteq> [] \<longrightarrow>
        map request_of (exec_records (last_turn ev)) = tool_requests (last (chat_responses ev))) \<and>
     (error res = None \<longrightarrow>
        chat_responses ev \<noteq> [] \<and> tool_requests (last (chat_responses ev)) = [] \<and>
        response res = content_or_empty (last (chat_responses ev))) \<and>
     (error res \<noteq> None \<longrightarrow>
        error res = Some ''max_iterations_reached'' \<and> response res = fallback_response \<and>
        iterations res = max i mx \<and> (\<forall>r \<in> set (chat_responses ev). tool_requests r \<noteq> []))"

section \<open>Test doubles\<close>

text \<open>
  Small adapters, tools and backends on which the theorems below are instantiated.
  \<open>scripted_chat\<close> answers from a script kept as the outside world and gives a final
  answer once the script is used up.
\<close>

definition scripted_chat :: "('a llm_response list, 't, 'a) chat_fn" where
  "scripted_chat script messages tools =
     (case script of
        [] \<Rightarrow> (\<lparr>r_content = Some ''done'', r_tool_calls = Some []\<rparr>, [])
      | resp # rest \<Rightarrow> (resp, rest))"

definition insistent_chat :: "('w, 't, py_args) chat_fn" where
  "insistent_chat w messages tools =
     (\<lparr>r_content = Some ''[Calling tools...]'',
       r_tool_calls = Some [\<lparr>tc_name = ''get_low_stock_products'', tc_arguments = []\<rparr>]\<rparr>, w)"

definition echo_tool :: "('w, 'a, 'a) exec_fn" where
  "echo_tool w tool_name tool_args = (tool_args, w)"

definition name_format :: "'r format_fn" where
  "name_format tool_name tool_result = tool_name"

definition low_stock_turn :: "py_args llm_response" where
  "low_stock_turn =
     \<lparr>r_content = Some ''[Calling tools...]'',
      r_tool_calls = Some [\<lparr>tc_name = ''get_low_stock_products'', tc_arguments = []\<rparr>]\<rparr>"

definition two_tools_turn :: "py_args llm_response" where
  "two_tools_turn =
     \<lparr>r_content = Some ''[Calling tools...]'',
      r_tool_calls = Some
        [\<lparr>tc_name = ''get_trending_products'', tc_arguments = [(''days'', PyInt 7)]\<rparr>,
         \<lparr>tc_name = ''get_recent_transactions'', tc_arguments = [(''limit'', PyInt 3)]\<rparr>]\<rparr>"

definition system_turn :: message where
  "system_turn = \<lparr>role = ''system'', content = ''You are a helpful assistant.''\<rparr>"

definition silent_provider :: "unit provider_fn" where
  "silent_provider w gemini_tools prompt = (Inr [], w)"

definition failing_provider :: "unit provider_fn" where
  "failing_provider w gemini_tools prompt = (Inl ''503 Service Unavailable'', w)"

definition empty_queries :: "string \<Rightarrow> unit tool_fn" where
  "empty_queries n w tool_args = (Inr (PyList []), w)"

definition type_name :: "pyval \<Rightarrow> string" where
  "type_name v =
     (case v of PyNone \<Rightarrow> ''None'' | PyBool b \<Rightarrow> ''bool'' | PyInt n \<Rightarrow> ''int''
      | PyStr s \<Rightarrow> ''str'' | PyList xs \<Rightarrow> ''list'' | PyDict kvs \<Rightarrow> ''dict'')"

definition failing_backend :: "(unit, string) backend" where
  "failing_backend w req = (Inl ''connection refused'', w)"

definition int_of_int_only :: "pyval \<Rightarrow> string + int" where
  "int_of_int_only v = (case v of PyInt n \<Rightarrow> Inr n | _ \<Rightarrow> Inl ''not an int'')"

section \<open>Properties of the loops\<close>

lemma chat_responses_append [simp]:
  "chat_responses (xs @ ys) = chat_responses xs @ chat_responses ys"
  by (induction xs rule: chat_responses.induct) auto

lemma exec_records_append [simp]:
  "exec_records (xs @ ys) = exec_records xs @ exec_records ys"
  by (induction xs rule: exec_records.induct) auto

lemma synthetic_turns_append [simp]:
  "synthetic_turns f (xs @ ys) = synthetic_turns f xs @ synthetic_turns f ys"
  by (simp add: synthetic_turns_def Let_def)


lemma run_tool_calls_Cons:
  "run_tool_calls ex fmt (tc # rest) (msgs, made, w) =
     (case ex w (tc_name tc) (tc_arguments tc) of
        (r, w') \<Rightarrow>
          run_tool_calls ex fmt rest
            (msgs @ synthetic_turns fmt [\<lparr>name = tc_name tc, arguments = tc_arguments tc, result = r\<rparr>],
             made @ [\<lparr>name = tc_name tc, arguments = tc_arguments tc, result = r\<rparr>], w'))"
  by (simp add: synthetic_turns_def Let_def split: prod.splits)

lemma synthetic_turns_Nil [simp]: "synthetic_turns f [] = []"
  by (simp add: synthetic_turns_def)

lemma request_of_simp [simp]:
  "request_of \<lparr>name = n, arguments = a, result = r\<rparr> = \<lparr>tc_name = n, tc_arguments = a\<rparr>"
  by (simp add: request_of_def)

lemma run_tool_calls_plain:
  "run_tool_calls ex fmt tcs (msgs, made, w) = (msgs', made', w') \<Longrightarrow>
   \<exists>new. made' = made @ new \<and> map request_of new = tcs \<and>
         msgs' = msgs @ synthetic_turns fmt new"
proof (induction tcs arbitrary: msgs made w)
  case Nil
  then show ?case by simp
next
  case (Cons tc tcs)
  obtain r w1 where ex: "ex w (tc_name tc) (tc_arguments tc) = (r, w1)"
    by (cases "ex w (tc_name tc) (tc_arguments tc)")
  define rec where "rec = \<lparr>name = tc_name tc, arguments = tc_arguments tc, result = r\<rparr>"
  from Cons.prems ex have
    "run_tool_calls ex fmt tcs (msgs @ synthetic_turns fmt [rec], made @ [rec], w1) = (msgs', made', w')"
    by (simp only: run_tool_calls_Cons rec_def prod.case)
  from Cons.IH [OF this] obtain new where new:
    "made' = (made @ [rec]) @ new" "map request_of new = tcs"
    "msgs' = (msgs @ synthetic_turns fmt [rec]) @ synthetic_turns fmt new"
    by blast
  have "request_of rec = tc" by (simp add: rec_def)
  with new have "made' = made @ (rec # new) \<and> map request_of (rec # new) = tc # tcs \<and>
     msgs' = msgs @ synthetic_turns fmt ([rec] @ new)"
    by (simp del: append.simps)
  then show ?case by (intro exI [of _ "rec # new"]) simp
qed

lemma logged_exec_apply:
  "logged_exec ex (w, log) n a =
     (case ex w n a of (r, w') \<Rightarrow> (r, (w', log @ [ToolCall n a r])))"
  by (simp add: logged_exec_def)

lemma logged_chat_apply:
  "logged_chat chat (w, log) ms ts =
     (case chat w ms ts of (resp, w') \<Rightarrow> (resp, (w', log @ [ChatCall ms resp])))"
  by (simp add: logged_chat_def)

lemma run_tool_calls_logged:
  "run_tool_calls (logged_exec ex) fmt tcs (msgs, made, (w, log)) = (msgs', made', (w', log')) \<Longrightarrow>
   \<exists>ev. log' = log @ ev \<and> made' = made @ exec_records ev \<and> chat_responses ev = [] \<and>
        map request_of (exec_records ev) = tcs \<and>
        msgs' = msgs @ synthetic_turns fmt (exec_records ev) \<and>
        run_tool_calls ex fmt tcs (msgs, made, w) = (msgs', made', w')"
proof (induction tcs arbitrary: msgs made w log)
  case Nil
  then show ?case by simp
next
  case (Cons tc tcs)
  obtain r w1 where ex: "ex w (tc_name tc) (tc_arguments tc) = (r, w1)"
    by (cases "ex w (tc_name tc) (tc_arguments tc)")
  define rec where "rec = \<lparr>name = tc_name tc, arguments = tc_arguments tc, result = r\<rparr>"
  define e :: "('a, 'b) event" where "e = ToolCall (tc_name tc) (tc_arguments tc) r"
  from Cons.prems ex have
    "run_tool_calls (logged_exec ex) fmt tcs
       (msgs @ synthetic_turns fmt [rec], made @ [rec], (w1, log @ [e])) = (msgs', made', (w', log'))"
    by (simp only: run_tool_calls_Cons logged_exec_apply rec_def e_def prod.case)
  from Cons.IH [OF this] obtain ev where ev:
    "log' = (log @ [e]) @ ev" "made' = (made @ [rec]) @ exec_records ev"
    "chat_responses ev = []" "map request_of (exec_records ev) = tcs"
    "msgs' = (msgs @ synthetic_turns fmt [rec]) @ synthetic_turns fmt (exec_records ev)"
    "run_tool_calls ex fmt tcs (msgs @ synthetic_turns fmt [rec], made @ [rec], w1) = (msgs', made', w')"
    by blast
  have e: "exec_records (e # ev) = [rec] @ exec_records ev" "chat_responses (e # ev) = chat_responses ev"
    "request_of rec = tc"
    by (simp_all add: rec_def e_def)
  have plain: "run_tool_calls ex fmt (tc # tcs) (msgs, made, w) = (msgs', made', w')"
    using ev(6) ex by (simp only: run_tool_calls_Cons rec_def prod.case)
  from ev e have "log' = log @ (e # ev) \<and> made' = made @ exec_records (e # ev) \<and>
     chat_responses (e # ev) = [] \<and> map request_of (exec_records (e # ev)) = tc # tcs \<and>
     msgs' = msgs @ synthetic_turns fmt (exec_records (e # ev))"
    by (simp del: append.simps exec_records.simps chat_responses.simps)
  with plain show ?case by (intro exI [of _ "e # ev"]) blast
qed


declare chat_loop.simps [simp del]

lemma is_tool_call_simps [simp]:
  "is_tool_call (ToolCall n a r)" "\<not> is_tool_call (ChatCall ms resp)"
  by (simp_all add: is_tool_call_def)

lemma no_chat_all_tools: "chat_responses ev = [] \<Longrightarrow> \<forall>e \<in> set ev. is_tool_call e"
  by (induction ev rule: chat_responses.induct) auto

lemma last_turn_tools:
  "chat_responses ev = [] \<Longrightarrow> last_turn (pre @ ChatCall ms resp # ev) = ev"
proof -
  assume a: "chat_responses ev = []"
  have all: "\<forall>e \<in> set (rev ev). is_tool_call e"
    using no_chat_all_tools [OF a] by simp
  have "takeWhile is_tool_call (rev ev @ ChatCall ms resp # rev pre) =
        rev ev @ takeWhile is_tool_call (ChatCall ms resp # rev pre)"
    by (rule takeWhile_append2) (use all in blast)
  then show ?thesis by (simp add: last_turn_def)
qed

lemma last_turn_later:
  "chat_responses ev \<noteq> [] \<Longrightarrow> last_turn (pre @ ev) = last_turn ev"
proof (induction ev rule: rev_induct)
  case Nil
  then show ?case by simp
next
  case (snoc e ev)
  show ?case
  proof (cases e)
    case (ChatCall ms resp)
    then show ?thesis by (simp add: last_turn_def)
  next
    case (ToolCall n a r)
    with snoc.prems have "chat_responses ev \<noteq> []" by simp
    from snoc.IH [OF this] have "takeWhile is_tool_call (rev ev @ rev pre) = takeWhile is_tool_call (rev ev)"
      by (simp add: last_turn_def)
    with ToolCall show ?thesis by (simp add: last_turn_def)
  qed
qed

lemma chat_loop_logged_aux:
  fixes chat :: "('w, 't, 'a) chat_fn" and ex :: "('w, 'a, 'r) exec_fn"
  assumes "chat_loop chat' ex' fmt tools mx i msgs made wl = (res, msgs', wl')"
    and "chat' = logged_chat chat" and "ex' = logged_exec ex"
  shows "\<exists>ev. snd wl' = snd wl @ ev \<and> run_facts fmt mx i msgs made res msgs' ev \<and>
              chat_loop chat ex fmt tools mx i msgs made (fst wl) = (res, msgs', fst wl')"
  using assms
proof (induction chat' ex' fmt tools mx i msgs made wl arbitrary: res msgs' wl'
       rule: chat_loop.induct)
  case (1 chat' ex' fmt tools mx i msgs made wl)
  note run = "1.prems"(1) and [simp] = "1.prems"(2,3)
  obtain w log where wl: "wl = (w, log)" by (cases wl)
  show ?case
  proof (cases "i < mx")
    case False
    with run have r: "res = \<lparr>response = fallback_response, tool_calls_made = made,
          iterations = i, error = Some ''max_iterations_reached''\<rparr>" "msgs' = msgs" "wl' = wl"
      by (simp_all add: chat_loop.simps [of _ _ _ _ mx i])
    have "run_facts fmt mx i msgs made res msgs' []"
      using False by (simp add: run_facts_def r)
    moreover have "chat_loop chat ex fmt tools mx i msgs made (fst wl) = (res, msgs', fst wl')"
      using False by (simp add: chat_loop.simps [of _ _ _ _ mx i] r)
    ultimately show ?thesis using r by (intro exI [of _ "[]"]) simp
  next
    case True
    obtain resp w1 where c: "chat w msgs tools = (resp, w1)"
      by (cases "chat w msgs tools")
    define e :: "('a, 'r) event" where "e = ChatCall msgs resp"
    have c': "chat' wl msgs tools = (resp, (w1, log @ [e]))"
      by (simp add: wl logged_chat_apply c e_def)
    show ?thesis
    proof (cases "tool_requests resp = []")
      case no_tools: True
      with run True c' have r: "res = \<lparr>response = content_or_empty resp, tool_calls_made = made,
                 iterations = i + 1, error = None\<rparr>" "msgs' = msgs" "wl' = (w1, log @ [e])"
        by (simp_all add: chat_loop.simps [of _ _ _ _ mx i])
      have "run_facts fmt mx i msgs made res msgs' [e]"
        using True no_tools by (simp add: run_facts_def r e_def last_turn_def)
      moreover have "chat_loop chat ex fmt tools mx i msgs made (fst wl) = (res, msgs', fst wl')"
        using True no_tools c by (simp add: chat_loop.simps [of _ _ _ _ mx i] r wl)
      ultimately show ?thesis using r wl by (intro exI [of _ "[e]"]) simp
    next
      case tools: False
      obtain msgs1 made1 w2 log2 where
        t: "run_tool_calls ex' fmt (tool_requests resp) (msgs, made, (w1, log @ [e])) =
              (msgs1, made1, (w2, log2))"
        by (cases "run_tool_calls ex' fmt (tool_requests resp) (msgs, made, (w1, log @ [e]))") auto
      with run True c' tools have
        rest: "chat_loop chat' ex' fmt tools mx (i + 1) msgs1 made1 (w2, log2) = (res, msgs', wl')"
        by (simp add: chat_loop.simps [of _ _ _ _ mx i])
      from run_tool_calls_logged [OF t [simplified]] obtain ev1 where ev1:
        "log2 = (log @ [e]) @ ev1" "made1 = made @ exec_records ev1" "chat_responses ev1 = []"
        "map request_of (exec_records ev1) = tool_requests resp"
        "msgs1 = msgs @ synthetic_turns fmt (exec_records ev1)"
        "run_tool_calls ex fmt (tool_requests resp) (msgs, made, w1) = (msgs1, made1, w2)"
        by blast
      from "1.IH" [OF True c' [symmetric] tools t [symmetric] refl rest "1.prems"(2,3)] obtain ev2 where ev2:
        "snd wl' = log2 @ ev2" "run_facts fmt mx (i + 1) msgs1 made1 res msgs' ev2"
        "chat_loop chat ex fmt tools mx (i + 1) msgs1 made1 w2 = (res, msgs', fst wl')"
        by auto
      have plain: "chat_loop chat ex fmt tools mx i msgs made (fst wl) = (res, msgs', fst wl')"
        using True tools c ev1(6) ev2(3) by (simp add: chat_loop.simps [of _ _ _ _ mx i] wl)
      have lg: "snd wl' = snd wl @ (e # ev1 @ ev2)"
        using ev1(1) ev2(1) wl by simp
      have lt: "chat_responses ev2 = [] \<Longrightarrow> last_turn (e # ev1 @ ev2) = ev1"
        using ev2(2) last_turn_tools [OF ev1(3), of "[]" msgs resp]
        by (simp add: run_facts_def e_def)
      have lt': "chat_responses ev2 \<noteq> [] \<Longrightarrow> last_turn (e # ev1 @ ev2) = last_turn ev2"
        using last_turn_later [of ev2 "e # ev1"] by simp
      have cr: "chat_responses (e # ev1 @ ev2) = resp # chat_responses ev2"
        "exec_records (e # ev1 @ ev2) = exec_records ev1 @ exec_records ev2"
        using ev1(3) by (simp_all add: e_def)
      have "run_facts fmt mx i msgs made res msgs' (e # ev1 @ ev2)"
        unfolding run_facts_def cr
        using ev2(2) ev1(2-5) True tools lt lt'
        by (auto simp: run_facts_def)
      with lg plain show ?thesis by (intro exI [of _ "e # ev1 @ ev2"]) simp
    qed
  qed
qed


lemma traced_run:
  fixes chat :: "('w, 't, 'a) chat_fn" and ex :: "('w, 'a, 'r) exec_fn"
  assumes R_def: "R = traced_chat_with_tools chat ex fmt um h tools mx w"
    and start_def: "start = (case h of None \<Rightarrow> [] | Some l \<Rightarrow> l) @ [\<lparr>role = ''user'', content = um\<rparr>]"
  shows "\<exists>msgs'. run_facts fmt mx 0 start [] (returned R) msgs' (trace R) \<and>
           caller_history R =
             (case h of None \<Rightarrow> None | Some l \<Rightarrow> if l = [] then Some [] else Some msgs') \<and>
           chat_with_tools chat ex fmt um h tools mx w = (returned R, caller_history R, world R)"
proof -
  obtain res msgs' w' log where
    l: "chat_loop (logged_chat chat) (logged_exec ex) fmt tools mx 0 start [] (w, []) =
          (res, msgs', (w', log))"
    by (cases "chat_loop (logged_chat chat) (logged_exec ex) fmt tools mx 0 start [] (w, [])") auto
  from chat_loop_logged_aux [OF l refl refl] have
    f: "run_facts fmt mx 0 start [] res msgs' log"
    and p: "chat_loop chat ex fmt tools mx 0 start [] w = (res, msgs', w')"
    by auto
  have R: "R = \<lparr>returned = res,
                caller_history = (case h of None \<Rightarrow> None
                                  | Some l \<Rightarrow> if l = [] then Some [] else Some msgs'),
                world = w', trace = log\<rparr>"
    using l by (simp add: R_def traced_chat_with_tools_def chat_with_tools_def start_def)
  have "chat_with_tools chat ex fmt um h tools mx w = (returned R, caller_history R, world R)"
    using p by (simp add: R chat_with_tools_def start_def)
  with f R show ?thesis by (intro exI [of _ msgs']) simp
qed

lemma last_turn_suffix: "suffix (last_turn es) es"
proof -
  have "rev es = takeWhile is_tool_call (rev es) @ dropWhile is_tool_call (rev es)"
    by simp
  then have "es = rev (dropWhile is_tool_call (rev es)) @ last_turn es"
    unfolding last_turn_def by (metis rev_append rev_rev_ident)
  then show ?thesis by (metis suffixI)
qed

lemma last_turn_no_chat: "chat_responses (last_turn es) = []"
proof -
  have "\<forall>e \<in> set xs. is_tool_call e \<Longrightarrow> chat_responses xs = []" for xs :: "('a, 'b) event list"
    by (induction xs rule: chat_responses.induct) auto
  moreover have "\<forall>e \<in> set (last_turn es). is_tool_call e"
    by (auto simp: last_turn_def dest: set_takeWhileD)
  ultimately show ?thesis by blast
qed

lemma exec_records_suffix: "suffix xs ys \<Longrightarrow> suffix (exec_records xs) (exec_records ys)"
  by (auto simp: suffix_def)

lemma fallback_response_nonempty: "fallback_response \<noteq> []"
  by (simp add: fallback_response_def)

lemma chat_loop_appends:
  fixes chat :: "('w, 't, 'a) chat_fn" and ex :: "('w, 'a, 'r) exec_fn"
  assumes "chat_loop chat ex fmt tools mx i msgs made w = (res, msgs', w')"
  shows "\<exists>new. tool_calls_made res = made @ new \<and> msgs' = msgs @ synthetic_turns fmt new"
proof -
  obtain resL msgsL wL logL where
    l: "chat_loop (logged_chat chat) (logged_exec ex) fmt tools mx i msgs made
          (w, [] :: ('a, 'r) event list) = (resL, msgsL, (wL, logL))"
    by (cases "chat_loop (logged_chat chat) (logged_exec ex) fmt tools mx i msgs made
          (w, [] :: ('a, 'r) event list)") auto
  from chat_loop_logged_aux [OF l refl refl] obtain ev where
    f: "run_facts fmt mx i msgs made resL msgsL ev"
    and p: "chat_loop chat ex fmt tools mx i msgs made w = (resL, msgsL, wL)"
    by auto
  from p assms have "res = resL" "msgs' = msgsL" by simp_all
  with f have "tool_calls_made res = made @ exec_records ev \<and>
      msgs' = msgs @ synthetic_turns fmt (exec_records ev)"
    by (simp add: run_facts_def)
  then show ?thesis by blast
qed

lemma raised_cases:
  "isl (fst (execute w req)) \<Longrightarrow> \<exists>e w'. execute w req = (Inl e, w')"
  by (cases "execute w req") (auto simp: isl_def)

section \<open>The claims\<close>

text \<open>
  The theorems speak about \<open>traced_chat_with_tools\<close>. By \<open>traced_run\<close> its first
  three components are exactly what \<open>chat_with_tools\<close> gives with the unwrapped
  adapter and tool executor; \<open>trace\<close> lists the calls that run made.
\<close>

text \<open>
  C1. For every \<open>max_iterations \<ge> 1\<close>, every history and every behaviour of the
  adapter, \<open>chat_with_tools\<close> returns (\<open>chat_loop\<close> is a total function: its
  termination is proved with the measure \<open>max_iterations - iterations\<close>) after at most
  \<open>max_iterations\<close> calls of \<open>chat\<close>, and \<open>iterations\<close> in the result, which is the
  number of those calls, is at most \<open>max_iterations\<close>.
\<close>

theorem chat_with_tools_bounded:
  "1 \<le> max_iterations \<Longrightarrow>
   (let R = traced_chat_with_tools chat execute_tool_call format_tool_response
              user_message conversation_history tools max_iterations w
    in returned R =
         fst (chat_with_tools chat execute_tool_call format_tool_response
                user_message conversation_history tools max_iterations w) \<and>
       length (chat_responses (trace R)) \<le> nat max_iterations \<and>
       iterations (returned R) = int (length (chat_responses (trace R))) \<and>
       iterations (returned R) \<le> max_iterations)"
proof -
  assume mx: "1 \<le> max_iterations"
  define R where "R = traced_chat_with_tools chat execute_tool_call format_tool_response
              user_message conversation_history tools max_iterations w"
  from traced_run [OF R_def refl] obtain msgs' where
    f: "run_facts format_tool_response max_iterations 0
       ((case conversation_history of None \<Rightarrow> [] | Some l \<Rightarrow> l) @
        [\<lparr>role = ''user'', content = user_message\<rparr>]) [] (returned R) msgs' (trace R)"
    and plain: "chat_with_tools chat execute_tool_call format_tool_response
                user_message conversation_history tools max_iterations w =
                (returned R, caller_history R, world R)"
    by blast
  from f have "iterations (returned R) = int (length (chat_responses (trace R)))"
    and "iterations (returned R) \<le> max 0 max_iterations"
    by (simp_all add: run_facts_def)
  with mx plain have "returned R =
         fst (chat_with_tools chat execute_tool_call format_tool_response
                user_message conversation_history tools max_iterations w) \<and>
       length (chat_responses (trace R)) \<le> nat max_iterations \<and>
       iterations (returned R) = int (length (chat_responses (trace R))) \<and>
       iterations (returned R) \<le> max_iterations"
    by simp
  then show ?thesis unfolding Let_def R_def [symmetric] .
qed

theorem chat_with_tools_bounded_witness:
  "(1::int) \<le> 3 \<and>
   length (chat_responses (trace (traced_chat_with_tools scripted_chat echo_tool name_format
      ''What is low in stock?'' None (None :: tool_def list option) 3
      [two_tools_turn, low_stock_turn]))) \<le> nat 3 \<and>
   iterations (fst (chat_with_tools scripted_chat echo_tool name_format
      ''What is low in stock?'' None (None :: tool_def list option) 3
      [two_tools_turn, low_stock_turn])) \<le> 3"
proof -
  note bounded = chat_with_tools_bounded [of 3 scripted_chat echo_tool name_format
      "''What is low in stock?''" None "None :: tool_def list option"
      "[two_tools_turn, low_stock_turn]", unfolded Let_def]
  have "(1::int) \<le> 3" by simp
  from bounded [OF this] show ?thesis by (elim conjE) simp
qed

text \<open>
  C2. \<open>tool_calls_made\<close> in the result lists exactly the tool executions of the run,
  in the order they happened, each with the name and arguments it was called with and
  the result \<open>execute_tool_call\<close> gave; read as requests, they are the requests of
  the adapter's answers, answer after answer and inside an answer in the order
  listed; so their number is the total number of requests.
\<close>

theorem tool_calls_made_in_emission_order:
  "(let R = traced_chat_with_tools chat execute_tool_call format_tool_response
              user_message conversation_history tools max_iterations w;
        made = tool_calls_made (returned R);
        calls = chat_responses (trace R)
    in made = exec_records (trace R) \<and>
       map request_of made = concat (map tool_requests calls) \<and>
       length made = sum_list (map (\<lambda>resp. length (tool_requests resp)) calls))"
proof -
  define R where "R = traced_chat_with_tools chat execute_tool_call format_tool_response
              user_message conversation_history tools max_iterations w"
  from traced_run [OF R_def refl] obtain msgs' where
    "run_facts format_tool_response max_iterations 0
       ((case conversation_history of None \<Rightarrow> [] | Some l \<Rightarrow> l) @
        [\<lparr>role = ''user'', content = user_message\<rparr>]) [] (returned R) msgs' (trace R)"
    by blast
  then have made: "tool_calls_made (returned R) = exec_records (trace R)"
    and req: "map request_of (exec_records (trace R)) =
              concat (map tool_requests (chat_responses (trace R)))"
    by (simp_all add: run_facts_def)
  have "length (exec_records (trace R)) =
        length (concat (map tool_requests (chat_responses (trace R))))"
    using arg_cong [OF req, of length] by simp
  then have "length (exec_records (trace R)) =
        sum_list (map (\<lambda>resp. length (tool_requests resp)) (chat_responses (trace R)))"
    by (simp add: length_concat comp_def)
  with made req show ?thesis by (simp add: R_def Let_def)
qed

text \<open>
  C3. For \<open>max_iterations \<ge> 1\<close>, if every answer the adapter gives in the run has
  at least one tool request, the result is the exhausted one: \<open>iterations\<close> is
  \<open>max_iterations\<close>, the key \<open>error\<close> is set to \<open>max_iterations_reached\<close>, and the
  text is the fixed fallback string.
\<close>

theorem always_tools_exhausts:
  "1 \<le> max_iterations \<Longrightarrow>
   (let R = traced_chat_with_tools chat execute_tool_call format_tool_response
              user_message conversation_history tools max_iterations w
    in (\<forall>resp \<in> set (chat_responses (trace R)). tool_requests resp \<noteq> []) \<longrightarrow>
       iterations (returned R) = max_iterations \<and>
       error (returned R) = Some ''max_iterations_reached'' \<and>
       response (returned R) = fallback_response)"
proof -
  assume mx: "1 \<le> max_iterations"
  define R where "R = traced_chat_with_tools chat execute_tool_call format_tool_response
              user_message conversation_history tools max_iterations w"
  from traced_run [OF R_def refl] obtain msgs' where
    f: "run_facts format_tool_response max_iterations 0
       ((case conversation_history of None \<Rightarrow> [] | Some l \<Rightarrow> l) @
        [\<lparr>role = ''user'', content = user_message\<rparr>]) [] (returned R) msgs' (trace R)"
    by blast
  have "iterations (returned R) = max_iterations \<and>
       error (returned R) = Some ''max_iterations_reached'' \<and>
       response (returned R) = fallback_response"
    if all: "\<forall>resp \<in> set (chat_responses (trace R)). tool_requests resp \<noteq> []"
  proof -
    have "error (returned R) \<noteq> None"
    proof
      assume "error (returned R) = None"
      with f have "chat_responses (trace R) \<noteq> []"
        and "tool_requests (last (chat_responses (trace R))) = []"
        by (simp_all add: run_facts_def)
      with all show False using last_in_set by blast
    qed
    with f mx show ?thesis by (simp add: run_facts_def)
  qed
  then show ?thesis by (simp add: R_def Let_def)
qed

theorem always_tools_exhausts_witness:
  "(1::int) \<le> 3 \<and>
   chat_responses (trace (traced_chat_with_tools insistent_chat echo_tool
        name_format ''What is low in stock?'' None (None :: tool_def list option) 3 ())) =
     [low_stock_turn, low_stock_turn, low_stock_turn] \<and>
   tool_requests low_stock_turn \<noteq> [] \<and>
   iterations (returned (traced_chat_with_tools insistent_chat echo_tool
        name_format ''What is low in stock?'' None (None :: tool_def list option) 3 ())) = 3 \<and>
   error (returned (traced_chat_with_tools insistent_chat echo_tool
        name_format ''What is low in stock?'' None (None :: tool_def list option) 3 ())) =
     Some ''max_iterations_reached'' \<and>
   response (returned (traced_chat_with_tools insistent_chat echo_tool
        name_format ''What is low in stock?'' None (None :: tool_def list option) 3 ())) =
     fallback_response"
proof -
  have tr: "chat_responses (trace (traced_chat_with_tools insistent_chat echo_tool
        name_format ''What is low in stock?'' None (None :: tool_def list option) 3 ())) =
        [low_stock_turn, low_stock_turn, low_stock_turn]"
    by code_simp
  have req: "tool_requests low_stock_turn \<noteq> []"
    by (simp add: low_stock_turn_def tool_requests_def)
  with tr always_tools_exhausts [of 3 insistent_chat echo_tool name_format
      "''What is low in stock?''" None "None :: tool_def list option" "()"]
  show ?thesis by (simp add: Let_def)
qed

text \<open>
  C4. The claim: the final text is non-empty whenever the run was not exhausted, and
  is the fixed fallback message when it was. The first half fails: the loop returns
  \<open>response.get('content', '')\<close> as it is, and the Gemini adapter leaves the content
  empty when the provider's answer has neither text nor a function call (its
  placeholder is added only beside tool calls). What holds: a run that was not
  exhausted returns the content of the adapter's last answer, empty or not; an
  exhausted run returns the fallback message, which is not empty.
\<close>

theorem final_text_is_last_content:
  "(let R = traced_chat_with_tools chat execute_tool_call format_tool_response
              user_message conversation_history tools max_iterations w;
        calls = chat_responses (trace R)
    in (error (returned R) = None \<longrightarrow>
          calls \<noteq> [] \<and> response (returned R) = content_or_empty (last calls)) \<and>
       (error (returned R) \<noteq> None \<longrightarrow>
          error (returned R) = Some ''max_iterations_reached'' \<and>
          response (returned R) = fallback_response \<and> response (returned R) \<noteq> []))"
proof -
  define R where "R = traced_chat_with_tools chat execute_tool_call format_tool_response
              user_message conversation_history tools max_iterations w"
  from traced_run [OF R_def refl] obtain msgs' where
    f: "run_facts format_tool_response max_iterations 0
       ((case conversation_history of None \<Rightarrow> [] | Some l \<Rightarrow> l) @
        [\<lparr>role = ''user'', content = user_message\<rparr>]) [] (returned R) msgs' (trace R)"
    by blast
  then have "error (returned R) = None \<longrightarrow>
          chat_responses (trace R) \<noteq> [] \<and>
          response (returned R) = content_or_empty (last (chat_responses (trace R)))"
    and "error (returned R) \<noteq> None \<longrightarrow>
          error (returned R) = Some ''max_iterations_reached'' \<and>
          response (returned R) = fallback_response \<and> response (returned R) \<noteq> []"
    using fallback_response_nonempty by (simp_all add: run_facts_def)
  then show ?thesis unfolding Let_def R_def [symmetric] by (rule conjI)
qed

theorem final_text_is_last_content_witness:
  "error (returned (traced_chat_with_tools scripted_chat echo_tool name_format
      ''What is low in stock?'' None (None :: tool_def list option) 3 [low_stock_turn])) = None \<and>
   response (returned (traced_chat_with_tools scripted_chat echo_tool name_format
      ''What is low in stock?'' None (None :: tool_def list option) 3 [low_stock_turn])) =
     ''done'' \<and>
   error (returned (traced_chat_with_tools scripted_chat echo_tool name_format
      ''What is low in stock?'' None (None :: tool_def list option) 1 [low_stock_turn])) \<noteq> None \<and>
   response (returned (traced_chat_with_tools scripted_chat echo_tool name_format
      ''What is low in stock?'' None (None :: tool_def list option) 1 [low_stock_turn])) =
     fallback_response"
proof -
  define R1 where "R1 = traced_chat_with_tools scripted_chat echo_tool name_format
      ''What is low in stock?'' None (None :: tool_def list option) 3 [low_stock_turn]"
  define R2 where "R2 = traced_chat_with_tools scripted_chat echo_tool name_format
      ''What is low in stock?'' None (None :: tool_def list option) 1 [low_stock_turn]"
  have e1: "error (returned R1) = None"
    unfolding R1_def by code_simp
  have l1: "content_or_empty (last (chat_responses (trace R1))) = ''done''"
    unfolding R1_def by code_simp
  have e2: "error (returned R2) \<noteq> None"
    unfolding R2_def by code_simp
  from final_text_is_last_content [of scripted_chat echo_tool name_format
      "''What is low in stock?''" None "None :: tool_def list option" 3 "[low_stock_turn]"]
    final_text_is_last_content [of scripted_chat echo_tool name_format
      "''What is low in stock?''" None "None :: tool_def list option" 1 "[low_stock_turn]"]
    e1 l1 e2
  show ?thesis by (simp add: Let_def R1_def [symmetric] R2_def [symmetric])
qed

text \<open>
  C4 as stated fails on a run with the Gemini adapter whose provider answers with no
  candidates: the run is not exhausted and its final text is empty.
\<close>

theorem final_text_nonempty_counterexample:
  "error (fst (chat_with_tools (GeminiLLM_chat silent_provider)
           (GeminiLLM_execute_tool_call (tool_map empty_queries))
           (GeminiLLM_format_tool_response type_name type_name)
           ''What is low in stock?'' None None 5 ())) = None \<and>
   response (fst (chat_with_tools (GeminiLLM_chat silent_provider)
           (GeminiLLM_execute_tool_call (tool_map empty_queries))
           (GeminiLLM_format_tool_response type_name type_name)
           ''What is low in stock?'' None None 5 ())) = []"
  by code_simp

text \<open>
  C5. The claim: the user message and the synthetic turns go to a working copy, so the
  caller's history is unchanged. It fails for a non-empty history:
  \<open>conversation_history or []\<close> is then the caller's own list, and the appends
  extend it. What holds: after the call a non-empty history passed in is that
  history followed by the user message and the two synthetic turns of every recorded
  tool call; an empty history stays empty; and the loop leaves the message list it
  started with followed by the synthetic turns of the tool calls it recorded, so
  messages are only appended, none is changed or removed.
\<close>

theorem history_appended_in_place:
  "(let R = traced_chat_with_tools chat execute_tool_call format_tool_response
              user_message conversation_history tools max_iterations w
    in caller_history R =
         (case conversation_history of
            None \<Rightarrow> None
          | Some h \<Rightarrow>
              if h = [] then Some []
              else Some (h @ \<lparr>role = ''user'', content = user_message\<rparr> #
                         synthetic_turns format_tool_response (tool_calls_made (returned R))))) \<and>
   (let out = chat_loop chat execute_tool_call format_tool_response tools max_iterations
                iters messages made w
    in fst (snd out) =
         messages @ synthetic_turns format_tool_response
                      (drop (length made) (tool_calls_made (fst out))))"
proof -
  define R where "R = traced_chat_with_tools chat execute_tool_call format_tool_response
              user_message conversation_history tools max_iterations w"
  from traced_run [OF R_def refl] obtain msgs' where
    f: "run_facts format_tool_response max_iterations 0
       ((case conversation_history of None \<Rightarrow> [] | Some l \<Rightarrow> l) @
        [\<lparr>role = ''user'', content = user_message\<rparr>]) [] (returned R) msgs' (trace R)"
    and c: "caller_history R =
             (case conversation_history of None \<Rightarrow> None
              | Some l \<Rightarrow> if l = [] then Some [] else Some msgs')"
    by blast
  from f have "msgs' = ((case conversation_history of None \<Rightarrow> [] | Some l \<Rightarrow> l) @
        [\<lparr>role = ''user'', content = user_message\<rparr>]) @
        synthetic_turns format_tool_response (tool_calls_made (returned R))"
    by (simp add: run_facts_def)
  with c have first: "caller_history R =
         (case conversation_history of
            None \<Rightarrow> None
          | Some h \<Rightarrow>
              if h = [] then Some []
              else Some (h @ \<lparr>role = ''user'', content = user_message\<rparr> #
                         synthetic_turns format_tool_response (tool_calls_made (returned R))))"
    by (simp split: option.splits)
  obtain res msgs1 w1 where
    l: "chat_loop chat execute_tool_call format_tool_response tools max_iterations
                iters messages made w = (res, msgs1, w1)"
    by (cases "chat_loop chat execute_tool_call format_tool_response tools max_iterations
                iters messages made w") auto
  from chat_loop_appends [OF l] obtain new where
    "tool_calls_made res = made @ new" "msgs1 = messages @ synthetic_turns format_tool_response new"
    by blast
  then have "msgs1 = messages @ synthetic_turns format_tool_response
                      (drop (length made) (tool_calls_made res))"
    by simp
  then have second: "fst (snd (chat_loop chat execute_tool_call format_tool_response tools
                max_iterations iters messages made w)) =
      messages @ synthetic_turns format_tool_response
        (drop (length made) (tool_calls_made (fst (chat_loop chat execute_tool_call
           format_tool_response tools max_iterations iters messages made w))))"
    by (simp add: l)
  from first second show ?thesis unfolding Let_def R_def [symmetric] by (rule conjI)
qed

theorem history_appended_in_place_witness:
  "caller_history (traced_chat_with_tools scripted_chat echo_tool name_format
      ''What is low in stock?'' (Some [system_turn]) (None :: tool_def list option) 3
      [low_stock_turn]) =
     Some [system_turn,
           \<lparr>role = ''user'', content = ''What is low in stock?''\<rparr>,
           \<lparr>role = ''assistant'', content = ''[Tool call: get_low_stock_products]''\<rparr>,
           \<lparr>role = ''user'', content = ''get_low_stock_products''\<rparr>]"
proof -
  define R where "R = traced_chat_with_tools scripted_chat echo_tool name_format
      ''What is low in stock?'' (Some [system_turn]) (None :: tool_def list option) 3
      [low_stock_turn]"
  have made: "tool_calls_made (returned R) =
      [\<lparr>name = ''get_low_stock_products'', arguments = [], result = []\<rparr>]"
    unfolding R_def by code_simp
  have turns: "synthetic_turns name_format
      [\<lparr>name = ''get_low_stock_products'', arguments = [] :: py_args, result = [] :: py_args\<rparr>] =
      [\<lparr>role = ''assistant'', content = ''[Tool call: get_low_stock_products]''\<rparr>,
       \<lparr>role = ''user'', content = ''get_low_stock_products''\<rparr>]"
    by (simp add: synthetic_turns_def name_format_def)
  from history_appended_in_place [of scripted_chat echo_tool name_format
      "''What is low in stock?''" "Some [system_turn]" "None :: tool_def list option" 3
      "[low_stock_turn]"]
  have "caller_history R =
      Some ([system_turn] @ \<lparr>role = ''user'', content = ''What is low in stock?''\<rparr> #
            synthetic_turns name_format (tool_calls_made (returned R)))"
    unfolding Let_def R_def [symmetric] by simp
  then have "caller_history R =
      Some [system_turn,
           \<lparr>role = ''user'', content = ''What is low in stock?''\<rparr>,
           \<lparr>role = ''assistant'', content = ''[Tool call: get_low_stock_products]''\<rparr>,
           \<lparr>role = ''user'', content = ''get_low_stock_products''\<rparr>]"
    unfolding made turns by simp
  then show ?thesis unfolding R_def .
qed

text \<open>
  C5 as stated fails on a history of one system message: after the call the caller's
  list also holds the user message.
\<close>

theorem caller_history_unchanged_counterexample:
  "fst (snd (chat_with_tools scripted_chat echo_tool name_format
           ''What is low in stock?'' (Some [system_turn]) (None :: tool_def list option) 5
           ([] :: py_args llm_response list))) =
     Some [system_turn, \<lparr>role = ''user'', content = ''What is low in stock?''\<rparr>] \<and>
   fst (snd (chat_with_tools scripted_chat echo_tool name_format
           ''What is low in stock?'' (Some [system_turn]) (None :: tool_def list option) 5
           ([] :: py_args llm_response list))) \<noteq> Some [system_turn]"
  by code_simp

text \<open>
  C6. For a tool name that \<open>self.tool_map\<close> does not have, and any arguments,
  \<open>execute_tool_call\<close> returns the dict \<open>{"error": "Unknown tool: <name>"}\<close>, whose
  text contains the name; that branch is a plain \<open>return\<close> before the \<open>try\<close>, the
  world is untouched.
\<close>

theorem unknown_tool_is_error_value:
  "registry tool_name = None \<Longrightarrow>
   GeminiLLM_execute_tool_call registry w tool_name tool_args =
     (PyDict [(''error'', PyStr (''Unknown tool: '' @ tool_name))], w) \<and>
   sublist tool_name (''Unknown tool: '' @ tool_name)"
proof
  assume "registry tool_name = None"
  then show "GeminiLLM_execute_tool_call registry w tool_name tool_args =
     (PyDict [(''error'', PyStr (''Unknown tool: '' @ tool_name))], w)"
    by (simp add: GeminiLLM_execute_tool_call_def)
next
  have "''Unknown tool: '' @ tool_name = ''Unknown tool: '' @ tool_name @ []"
    by simp
  then show "sublist tool_name (''Unknown tool: '' @ tool_name)"
    unfolding sublist_def by blast
qed

theorem unknown_tool_is_error_value_witness:
  "tool_map empty_queries ''drop_all_tables'' = None \<and>
   GeminiLLM_execute_tool_call (tool_map empty_queries) () ''drop_all_tables''
       [(''confirm'', PyBool True)] =
     (PyDict [(''error'', PyStr ''Unknown tool: drop_all_tables'')], ())"
proof -
  have none: "tool_map empty_queries ''drop_all_tables'' = None"
    by (simp add: tool_map_def tool_names_def)
  from unknown_tool_is_error_value [of "tool_map empty_queries" "''drop_all_tables''"
      "()" "[(''confirm'', PyBool True)]"] none
  show ?thesis by simp
qed

text \<open>
  C7. When the provider call raises, \<open>GeminiLLM.chat\<close> returns the content
  \<open>"Error: "\<close> followed by the exception's text and an empty list of tool calls; a
  loop iteration that gets this answer returns it as the final response.
\<close>

theorem provider_error_becomes_answer:
  "provider w (gemini_tools_of tools) (full_prompt messages) = (Inl e, w') \<Longrightarrow>
   GeminiLLM_chat provider w messages tools =
     (\<lparr>r_content = Some (''Error: '' @ e), r_tool_calls = Some []\<rparr>, w') \<and>
   (iters < max_iterations \<longrightarrow>
      chat_loop (GeminiLLM_chat provider) execute_tool_call format_tool_response tools
        max_iterations iters messages made w =
      (\<lparr>response = ''Error: '' @ e, tool_calls_made = made, iterations = iters + 1,
         error = None\<rparr>, messages, w'))"
  by (simp add: GeminiLLM_chat_def chat_loop.simps [of _ _ _ _ max_iterations iters]
      tool_requests_def content_or_empty_def)

theorem provider_error_becomes_answer_witness:
  "failing_provider () (gemini_tools_of None)
      (full_prompt [\<lparr>role = ''user'', content = ''What is low in stock?''\<rparr>]) =
     (Inl ''503 Service Unavailable'', ()) \<and>
   GeminiLLM_chat failing_provider () [\<lparr>role = ''user'', content = ''What is low in stock?''\<rparr>]
      None =
     (\<lparr>r_content = Some ''Error: 503 Service Unavailable'', r_tool_calls = Some []\<rparr>, ()) \<and>
   (0::int) < 5 \<and>
   chat_loop (GeminiLLM_chat failing_provider)
      (GeminiLLM_execute_tool_call (tool_map empty_queries))
      (GeminiLLM_format_tool_response type_name type_name) None 5 0
      [\<lparr>role = ''user'', content = ''What is low in stock?''\<rparr>] [] () =
     (\<lparr>response = ''Error: 503 Service Unavailable'', tool_calls_made = [], iterations = 1,
        error = None\<rparr>, [\<lparr>role = ''user'', content = ''What is low in stock?''\<rparr>], ())"
proof -
  have fails: "failing_provider () (gemini_tools_of None)
      (full_prompt [\<lparr>role = ''user'', content = ''What is low in stock?''\<rparr>]) =
     (Inl ''503 Service Unavailable'', ())"
    by (simp add: failing_provider_def)
  from provider_error_becomes_answer [of failing_provider "()" None
      "[\<lparr>role = ''user'', content = ''What is low in stock?''\<rparr>]"
      "''503 Service Unavailable''" "()" 0 5
      "GeminiLLM_execute_tool_call (tool_map empty_queries)"
      "GeminiLLM_format_tool_response type_name type_name" "[]"] fails
  show ?thesis by simp
qed

text \<open>
  C8. Each function of \<open>queries.py\<close>, the seven tools and the two helpers: when the
  backend raises on the request the function sends (after its \<open>int\<close> conversions,
  where it has any), the function returns \<open>[]\<close>, and \<open>get_product_details\<close> returns
  \<open>None\<close>. The result is an ordinary value: the exception is caught inside the
  function.
\<close>

theorem backend_fault_becomes_no_data:
  "(py_int limit = Inr l \<and> py_int days = Inr d \<and>
    isl (fst (execute w (Rpc ''get_top_selling_products''
       [(''p_category'', category), (''p_limit'', PyInt l), (''p_days'', PyInt d)]))) \<longrightarrow>
    fst (get_top_selling_products py_int execute w category limit days) = PyList []) \<and>
   (py_int limit = Inr l \<and> py_int days = Inr d \<and>
    isl (fst (execute w (Rpc ''get_trending_products''
       [(''p_days'', PyInt d), (''p_limit'', PyInt l)]))) \<longrightarrow>
    fst (get_trending_products py_int execute w days limit) = PyList []) \<and>
   (isl (fst (execute w (Rpc ''search_products_by_description''
       [(''p_search_term'', search_term)]))) \<longrightarrow>
    fst (search_products_by_description execute w search_term) = PyList []) \<and>
   (py_int limit = Inr l \<and>
    isl (fst (execute w (Rpc ''get_low_stock_products'' [(''p_limit'', PyInt l)]))) \<longrightarrow>
    fst (get_low_stock_products py_int execute w limit) = PyList []) \<and>
   (py_int days = Inr d \<and>
    isl (fst (execute w (Rpc ''get_sales_summary_by_category'' [(''p_days'', PyInt d)]))) \<longrightarrow>
    fst (get_sales_summary_by_category py_int execute w days) = PyList []) \<and>
   (isl (fst (execute w (Rpc ''get_product_details''
       [(''p_product_id'', product_id), (''p_product_name'', product_name)]))) \<longrightarrow>
    fst (get_product_details execute w product_id product_name) = PyNone) \<and>
   (py_int limit = Inr l \<and>
    isl (fst (execute w (Rpc ''get_recent_transactions'' [(''p_limit'', PyInt l)]))) \<longrightarrow>
    fst (get_recent_transactions py_int execute w limit) = PyList []) \<and>
   (isl (fst (execute w (Select ''categories'' ''name'' []))) \<longrightarrow>
    fst (get_all_categories execute w) = PyList []) \<and>
   (isl (fst (execute w (Select ''products''
       ''id, name, brand, retail_price, categories!inner(name)''
       [(''status'', PyStr ''active''), (''categories.name'', category)]))) \<longrightarrow>
    fst (get_category_products execute w category) = PyList [])"
proof (intro conjI impI)
  assume "py_int limit = Inr l \<and> py_int days = Inr d \<and>
    isl (fst (execute w (Rpc ''get_top_selling_products''
       [(''p_category'', category), (''p_limit'', PyInt l), (''p_days'', PyInt d)])))"
  then show "fst (get_top_selling_products py_int execute w category limit days) = PyList []"
    by (auto simp: get_top_selling_products_def dest!: raised_cases)
next
  assume "py_int limit = Inr l \<and> py_int days = Inr d \<and>
    isl (fst (execute w (Rpc ''get_trending_products''
       [(''p_days'', PyInt d), (''p_limit'', PyInt l)])))"
  then show "fst (get_trending_products py_int execute w days limit) = PyList []"
    by (auto simp: get_trending_products_def dest!: raised_cases)
next
  assume "isl (fst (execute w (Rpc ''search_products_by_description''
       [(''p_search_term'', search_term)])))"
  then show "fst (search_products_by_description execute w search_term) = PyList []"
    by (auto simp: search_products_by_description_def dest!: raised_cases)
next
  assume "py_int limit = Inr l \<and>
    isl (fst (execute w (Rpc ''get_low_stock_products'' [(''p_limit'', PyInt l)])))"
  then show "fst (get_low_stock_products py_int execute w limit) = PyList []"
    by (auto simp: get_low_stock_products_def dest!: raised_cases)
next
  assume "py_int days = Inr d \<and>
    isl (fst (execute w (Rpc ''get_sales_summary_by_category'' [(''p_days'', PyInt d)])))"
  then show "fst (get_sales_summary_by_category py_int execute w days) = PyList []"
    by (auto simp: get_sales_summary_by_category_def dest!: raised_cases)
next
  assume "isl (fst (execute w (Rpc ''get_product_details''
       [(''p_product_id'', product_id), (''p_product_name'', product_name)])))"
  then show "fst (get_product_details execute w product_id product_name) = PyNone"
    by (auto simp: get_product_details_def dest!: raised_cases)
next
  assume "py_int limit = Inr l \<and>
    isl (fst (execute w (Rpc ''get_recent_transactions'' [(''p_limit'', PyInt l)])))"
  then show "fst (get_recent_transactions py_int execute w limit) = PyList []"
    by (auto simp: get_recent_transactions_def dest!: raised_cases)
next
  assume "isl (fst (execute w (Select ''categories'' ''name'' [])))"
  then show "fst (get_all_categories execute w) = PyList []"
    by (auto simp: get_all_categories_def dest!: raised_cases)
next
  assume "isl (fst (execute w (Select ''products''
       ''id, name, brand, retail_price, categories!inner(name)''
       [(''status'', PyStr ''active''), (''categories.name'', category)])))"
  then show "fst (get_category_products execute w category) = PyList []"
    by (auto simp: get_category_products_def dest!: raised_cases)
qed

theorem backend_fault_becomes_no_data_witness:
  "int_of_int_only (PyInt 5) = Inr 5 \<and> int_of_int_only (PyInt 30) = Inr 30 \<and>
   (\<forall>req. isl (fst (failing_backend () req))) \<and>
   fst (get_top_selling_products int_of_int_only failing_backend ()
          (PyStr ''Wine'') (PyInt 5) (PyInt 30)) = PyList [] \<and>
   fst (get_trending_products int_of_int_only failing_backend () (PyInt 30) (PyInt 5)) =
     PyList [] \<and>
   fst (search_products_by_description failing_backend () (PyStr ''citrus'')) = PyList [] \<and>
   fst (get_low_stock_products int_of_int_only failing_backend () (PyInt 5)) = PyList [] \<and>
   fst (get_sales_summary_by_category int_of_int_only failing_backend () (PyInt 30)) =
     PyList [] \<and>
   fst (get_product_details failing_backend () (PyInt 17) PyNone) = PyNone \<and>
   fst (get_recent_transactions int_of_int_only failing_backend () (PyInt 5)) = PyList [] \<and>
   fst (get_all_categories failing_backend ()) = PyList [] \<and>
   fst (get_category_products failing_backend () (PyStr ''Wine'')) = PyList []"
proof -
  have conv: "int_of_int_only (PyInt 5) = Inr 5" "int_of_int_only (PyInt 30) = Inr 30"
    by (simp_all add: int_of_int_only_def)
  have fails: "isl (fst (failing_backend () req))" for req
    by (simp add: failing_backend_def)
  from backend_fault_becomes_no_data [of int_of_int_only "PyInt 5" 5 "PyInt 30" 30
      failing_backend "()" "PyStr ''Wine''" "PyStr ''citrus''" "PyInt 17" PyNone]
    conv fails
  show ?thesis by simp
qed

text \<open>
  C9. The claim: a call with \<open>max_iterations \<le> 0\<close> is rejected before the loop
  starts. The code has no such check: the loop condition is false at once and the
  code after the loop returns. What holds: with \<open>max_iterations \<le> 0\<close> no adapter
  call is made and the exhausted result is returned, with \<open>iterations = 0\<close> and no
  tool calls; a non-empty history passed in has the user message appended.
\<close>

theorem nonpositive_budget_exhausted:
  "max_iterations \<le> 0 \<Longrightarrow>
   chat_with_tools chat execute_tool_call format_tool_response
     user_message conversation_history tools max_iterations w =
   (\<lparr>response = fallback_response, tool_calls_made = [], iterations = 0,
      error = Some ''max_iterations_reached''\<rparr>,
    (case conversation_history of
       None \<Rightarrow> None
     | Some h \<Rightarrow>
         if h = [] then Some [] else Some (h @ [\<lparr>role = ''user'', content = user_message\<rparr>])),
    w) \<and>
   trace (traced_chat_with_tools chat execute_tool_call format_tool_response
     user_message conversation_history tools max_iterations w) = []"
  by (simp add: chat_with_tools_def traced_chat_with_tools_def
      chat_loop.simps [of _ _ _ _ max_iterations 0] split: option.splits)

theorem nonpositive_budget_exhausted_witness:
  "(-1::int) \<le> 0 \<and>
   chat_with_tools scripted_chat echo_tool name_format
     ''What is low in stock?'' (Some [system_turn]) (None :: tool_def list option) (-1)
     [low_stock_turn] =
   (\<lparr>response = fallback_response, tool_calls_made = [], iterations = 0,
      error = Some ''max_iterations_reached''\<rparr>,
    Some [system_turn, \<lparr>role = ''user'', content = ''What is low in stock?''\<rparr>],
    [low_stock_turn])"
  using nonpositive_budget_exhausted [of "-1" scripted_chat echo_tool name_format
      "''What is low in stock?''" "Some [system_turn]" "None :: tool_def list option"
      "[low_stock_turn]"]
  by (simp add: system_turn_def)

text \<open>
  C9 as stated fails at \<open>max_iterations = 0\<close>: the call returns a result, the
  exhausted one, and the adapter's script is untouched.
\<close>

theorem nonpositive_budget_rejected_counterexample:
  "chat_with_tools scripted_chat echo_tool name_format
     ''What is low in stock?'' None (None :: tool_def list option) 0 [low_stock_turn] =
   (\<lparr>response = fallback_response, tool_calls_made = [], iterations = 0,
      error = Some ''max_iterations_reached''\<rparr>, None, [low_stock_turn])"
  by code_simp

text \<open>
  C10. For \<open>max_iterations \<ge> 1\<close>, if the adapter is called \<open>max_iterations\<close> times
  and its last answer still has tool requests, the run is exhausted, and those
  requests are executed after that last call and recorded: the executions after the
  last adapter call answer exactly the requests of the last answer, their records
  are the end of \<open>tool_calls_made\<close>, no adapter call follows them, and
  \<open>tool_calls_made\<close> covers the requests of all answers.
\<close>

theorem last_iteration_requests_recorded:
  "1 \<le> max_iterations \<Longrightarrow>
   (let R = traced_chat_with_tools chat execute_tool_call format_tool_response
              user_message conversation_history tools max_iterations w;
        calls = chat_responses (trace R);
        made = tool_calls_made (returned R);
        final = exec_records (last_turn (trace R))
    in length calls = nat max_iterations \<and> tool_requests (last calls) \<noteq> [] \<longrightarrow>
       error (returned R) = Some ''max_iterations_reached'' \<and>
       map request_of final = tool_requests (last calls) \<and>
       suffix final made \<and>
       suffix (last_turn (trace R)) (trace R) \<and>
       chat_responses (last_turn (trace R)) = [] \<and>
       map request_of made = concat (map tool_requests calls))"
proof -
  assume mx: "1 \<le> max_iterations"
  define R where "R = traced_chat_with_tools chat execute_tool_call format_tool_response
              user_message conversation_history tools max_iterations w"
  define calls where "calls = chat_responses (trace R)"
  from traced_run [OF R_def refl] obtain msgs' where
    f: "run_facts format_tool_response max_iterations 0
       ((case conversation_history of None \<Rightarrow> [] | Some l \<Rightarrow> l) @
        [\<lparr>role = ''user'', content = user_message\<rparr>]) [] (returned R) msgs' (trace R)"
    by blast
  have made: "tool_calls_made (returned R) = exec_records (trace R)"
    using f by (simp add: run_facts_def)
  have all: "map request_of (exec_records (trace R)) = concat (map tool_requests calls)"
    using f by (simp add: run_facts_def calls_def)
  have suf: "suffix (exec_records (last_turn (trace R))) (tool_calls_made (returned R))"
    unfolding made by (rule exec_records_suffix [OF last_turn_suffix])
  have "error (returned R) = Some ''max_iterations_reached'' \<and>
       map request_of (exec_records (last_turn (trace R))) = tool_requests (last calls)"
    if len: "length calls = nat max_iterations" and req: "tool_requests (last calls) \<noteq> []"
  proof -
    from len mx have ne: "calls \<noteq> []" by auto
    have "error (returned R) \<noteq> None"
      using f req by (auto simp: run_facts_def calls_def)
    with f have "error (returned R) = Some ''max_iterations_reached''"
      by (simp add: run_facts_def)
    moreover from f ne have
      "map request_of (exec_records (last_turn (trace R))) = tool_requests (last calls)"
      by (simp add: run_facts_def calls_def)
    ultimately show ?thesis by simp
  qed
  with made all suf last_turn_suffix [of "trace R"] last_turn_no_chat [of "trace R"]
  show ?thesis by (simp add: R_def calls_def Let_def)
qed

theorem last_iteration_requests_recorded_witness:
  "(1::int) \<le> 2 \<and>
   length (chat_responses (trace (traced_chat_with_tools scripted_chat echo_tool name_format
      ''What is low in stock?'' None (None :: tool_def list option) 2
      [two_tools_turn, low_stock_turn]))) = nat 2 \<and>
   tool_requests (last (chat_responses (trace (traced_chat_with_tools scripted_chat echo_tool
      name_format ''What is low in stock?'' None (None :: tool_def list option) 2
      [two_tools_turn, low_stock_turn])))) \<noteq> [] \<and>
   error (returned (traced_chat_with_tools scripted_chat echo_tool name_format
      ''What is low in stock?'' None (None :: tool_def list option) 2
      [two_tools_turn, low_stock_turn])) = Some ''max_iterations_reached'' \<and>
   suffix [\<lparr>name = ''get_low_stock_products'', arguments = [], result = []\<rparr>]
     (tool_calls_made (returned (traced_chat_with_tools scripted_chat echo_tool name_format
      ''What is low in stock?'' None (None :: tool_def list option) 2
      [two_tools_turn, low_stock_turn])))"
proof -
  define R where "R = traced_chat_with_tools scripted_chat echo_tool name_format
      ''What is low in stock?'' None (None :: tool_def list option) 2
      [two_tools_turn, low_stock_turn]"
  have calls: "chat_responses (trace R) = [two_tools_turn, low_stock_turn]"
    unfolding R_def by code_simp
  have final: "exec_records (last_turn (trace R)) =
      [\<lparr>name = ''get_low_stock_products'', arguments = [], result = []\<rparr>]"
    unfolding R_def by code_simp
  have req: "tool_requests low_stock_turn \<noteq> []"
    by (simp add: low_stock_turn_def tool_requests_def)
  from last_iteration_requests_recorded [of 2 scripted_chat echo_tool name_format
      "''What is low in stock?''" None "None :: tool_def list option"
      "[two_tools_turn, low_stock_turn]"] calls final req
  show ?thesis by (simp add: Let_def R_def [symmetric])
qed

end
